theory Spec2Isabelle
  imports Main "HOL-Library.Sublist"
begin

section \<open>Values, errors and Python string helpers\<close>

text \<open>
  Embedding of \<^verbatim>\<open>anonymizer/datasource/managers.py\<close>. A Python value that
  reaches the code is a string, an integer, \<^verbatim>\<open>None\<close>, or anything else (a float, a
  provider-defined object), which is carried as an opaque code.
\<close>

datatype val = VNone | VInt int | VStr string | VOther nat

datatype error =
    IndexError
  | KeyError
  | AttributeError
  | TypeError
  | ValueError
  | ConnectionError
  | ProviderNotFound
  | ProviderMethodNotFound
  | PropertyNotFoundException
  | UnknownOperatorException
  | UserManagerException

type_synonym 'a result = "error + 'a"

definition bind_r :: "'a result \<Rightarrow> ('a \<Rightarrow> 'b result) \<Rightarrow> 'b result" where
  "bind_r r f = (case r of Inl e \<Rightarrow> Inl e | Inr x \<Rightarrow> f x)"

text \<open>\<^verbatim>\<open>s.split(c)\<close> for a one-character separator: never an empty list.\<close>

fun split_char :: "char \<Rightarrow> string \<Rightarrow> string list" where
  "split_char c [] = [[]]"
| "split_char c (x # xs) =
     (if x = c then [] # split_char c xs
      else (case split_char c xs of
              [] \<Rightarrow> [[x]]
            | w # ws \<Rightarrow> (x # w) # ws))"

text \<open>\<^verbatim>\<open>xs[i]\<close> for a non-negative index: IndexError out of range.\<close>

definition index_r :: "'a list \<Rightarrow> nat \<Rightarrow> 'a result" where
  "index_r xs i = (if i < length xs then Inr (xs ! i) else Inl IndexError)"

text \<open>\<^verbatim>\<open>sep.join(xs)\<close>.\<close>

fun join :: "string \<Rightarrow> string list \<Rightarrow> string" where
  "join sep [] = []"
| "join sep [x] = x"
| "join sep (x # y # ys) = x @ sep @ join sep (y # ys)"

text \<open>\<^verbatim>\<open>s.split(sep)\<close> for a non-empty separator, scanning left to right;
  \<^term>\<open>acc\<close> is the piece being read.\<close>

function split_str :: "string \<Rightarrow> string \<Rightarrow> string \<Rightarrow> string list" where
  "split_str sep acc [] = [acc]"
| "split_str sep acc (x # xs) =
     (if sep \<noteq> [] \<and> prefix sep (x # xs)
      then acc # split_str sep [] (drop (length sep) (x # xs))
      else split_str sep (acc @ [x]) xs)"
  by pat_completeness auto
termination
  by (relation "measure (\<lambda>(sep, acc, s). length s)") auto

text \<open>\<^verbatim>\<open>s.replace(old, new)\<close> for a non-empty \<^verbatim>\<open>old\<close>.\<close>

function replace :: "string \<Rightarrow> string \<Rightarrow> string \<Rightarrow> string" where
  "replace old new [] = []"
| "replace old new (x # xs) =
     (if old \<noteq> [] \<and> prefix old (x # xs)
      then new @ replace old new (drop (length old) (x # xs))
      else x # replace old new xs)"
  by pat_completeness auto
termination
  by (relation "measure (\<lambda>(old, new, s). length s)") auto

text \<open>\<^verbatim>\<open>s.lower()\<close> on ASCII letters.\<close>

definition lower_char :: "char \<Rightarrow> char" where
  "lower_char c =
     (if (65::nat) \<le> of_char c \<and> of_char c \<le> (90::nat)
      then char_of (of_char c + (32::nat)) else c)"

definition lower :: "string \<Rightarrow> string" where
  "lower s = map lower_char s"

section \<open>Property\<close>

text \<open>
  The object built by \<^verbatim>\<open>Property.__init__\<close>. The attributes \<^verbatim>\<open>fn\<close> and
  \<^verbatim>\<open>fn_args\<close> are set on generated properties only and read there only;
  \<^verbatim>\<open>connection\<close> and \<^verbatim>\<open>user_fk\<close> are set on stored properties only. A provider
  method is a function from the argument list to a value, or an exception.
\<close>

datatype property = Property
  (source: string)
  (table: string)
  (column: string)
  (aggregate: "string option")
  (filter_by: bool)
  (is_pk: bool)
  (name: string)
  (label: string)
  (tp: string)
  (connection: "string option")
  (user_fk: "property option")
  (fn: "val list \<Rightarrow> val result")
  (fn_args: "string list")

text \<open>\<^verbatim>\<open>return self.source[0] in ['^']\<close>\<close>

definition is_generated :: "property \<Rightarrow> bool result" where
  "is_generated p =
     (case source p of [] \<Rightarrow> Inl IndexError | c # _ \<Rightarrow> Inr (c = CHR ''^''))"

text \<open>Truth value of an optional string: \<^verbatim>\<open>None\<close> and the empty string are false.\<close>

definition truthy :: "string option \<Rightarrow> bool" where
  "truthy a = (case a of None \<Rightarrow> False | Some s \<Rightarrow> s \<noteq> [])"

definition full :: "property \<Rightarrow> string" where
  "full p =
     (let result = table p @ ''.'' @ column p
      in if truthy (aggregate p) then the (aggregate p) @ ''('' @ result @ '')'' else result)"

section \<open>Property.matches\<close>

text \<open>
  Library functions the filter engine calls and this development does not define:
  \<^verbatim>\<open>int(s)\<close> and \<^verbatim>\<open>float(s)\<close> (\<^term>\<open>None\<close> for ValueError) and the
  order of two Python values. Equality of values is equality of \<^typ>\<open>val\<close>.
\<close>

record pylib =
  py_int :: "string \<Rightarrow> int option"
  py_float :: "string \<Rightarrow> val option"
  py_lt :: "val \<Rightarrow> val \<Rightarrow> bool"
  py_le :: "val \<Rightarrow> val \<Rightarrow> bool"

definition is_op_char :: "char \<Rightarrow> bool" where
  "is_op_char c = (c \<in> set ''=!<>'')"

text \<open>\<^verbatim>\<open>re.split('[=!<>]', filter_exp)[0]\<close>: the text before the first operator character.\<close>

definition f_name_of :: "string \<Rightarrow> string" where
  "f_name_of filter_exp = takeWhile (\<lambda>c. \<not> is_op_char c) filter_exp"

text \<open>The scanning loop of \<^verbatim>\<open>matches\<close> over \<^verbatim>\<open>filter_exp[len(f_name):]\<close>.\<close>

fun scan_exp :: "string \<Rightarrow> string \<Rightarrow> string \<Rightarrow> string \<times> string" where
  "scan_exp operator exp [] = (operator, exp)"
| "scan_exp operator exp (c # cs) =
     (if exp = [] then
        (if c \<in> set ''=<>!'' then scan_exp (operator @ [c]) exp cs
         else scan_exp operator [c] cs)
      else scan_exp operator (exp @ [c]) cs)"

text \<open>
  \<^verbatim>\<open>if (s[0] == s[-1] == '"') or (s[0] == s[-1] == "'"): s = s[1:-1]\<close>;
  indexing the empty string raises IndexError.
\<close>

definition strip_quotes :: "string \<Rightarrow> string result" where
  "strip_quotes s =
     (case s of
        [] \<Rightarrow> Inl IndexError
      | c # _ \<Rightarrow>
          if (c = last s \<and> last s = CHR 0x22) \<or> (c = last s \<and> last s = CHR 0x27)
          then Inr (butlast (tl s)) else Inr s)"

definition val_in :: "val \<Rightarrow> string list \<Rightarrow> bool" where
  "val_in v r_arr = (case v of VStr s \<Rightarrow> s \<in> set r_arr | _ \<Rightarrow> False)"

text \<open>The loop over \<^verbatim>\<open>enumerate(ranges)\<close> of the scalar branch.\<close>

fun scalar_loop :: "nat \<Rightarrow> string list \<Rightarrow> val \<Rightarrow> val \<Rightarrow> val \<times> val" where
  "scalar_loop idx [] v exp = (v, exp)"
| "scalar_loop idx (r # rs) v exp =
     (let r_arr0 = split_char CHR ''='' r;
          r_arr = (if length r_arr0 = 1 then r_arr0 @ [r_arr0 ! 0] else r_arr0);
          v' = (if val_in v r_arr then VInt (int idx) else v);
          exp' = (if val_in exp r_arr then VInt (int idx) else exp)
      in scalar_loop (Suc idx) rs v' exp')"

definition is_int :: "val \<Rightarrow> bool" where
  "is_int v = (case v of VInt _ \<Rightarrow> True | _ \<Rightarrow> False)"

text \<open>Lines 160 to 186: the operands as they are compared.\<close>

definition coerce :: "'a pylib_scheme \<Rightarrow> property \<Rightarrow> val \<Rightarrow> string \<Rightarrow> (val \<times> val) result" where
  "coerce lib p v exp =
     (if prefix ''scalar'' (lower (tp p)) then
        bind_r (index_r (split_char CHR ''('' (tp p)) 1) (\<lambda>inner.
          let ranges = split_char CHR '','' (butlast inner);
              (v', exp') = scalar_loop 0 ranges v (VStr exp)
          in if \<not> is_int v' then Inl ValueError
             else if \<not> is_int exp' then Inl ValueError
             else Inr (v', exp'))
      else
        (case py_int lib exp of
           Some i \<Rightarrow> Inr (v, VInt i)
         | None \<Rightarrow>
            (case py_float lib exp of
               Some f \<Rightarrow> Inr (v, f)
             | None \<Rightarrow> Inr (v, VStr exp))))"

text \<open>Lines 188 to 202.\<close>

definition apply_operator :: "'a pylib_scheme \<Rightarrow> string \<Rightarrow> val \<Rightarrow> val \<Rightarrow> bool result" where
  "apply_operator lib operator v exp =
     (if operator = ''='' then Inr (v = exp)
      else if operator = ''!='' then Inr (v \<noteq> exp)
      else if operator = ''>'' then Inr (py_lt lib exp v)
      else if operator = ''>='' then Inr (py_le lib exp v)
      else if operator = ''<'' then Inr (py_lt lib v exp)
      else if operator = ''<='' then Inr (py_le lib v exp)
      else Inl UnknownOperatorException)"

definition matches :: "'a pylib_scheme \<Rightarrow> property \<Rightarrow> val \<Rightarrow> string \<Rightarrow> bool result" where
  "matches lib p v filter_exp =
     (let f_name = f_name_of filter_exp;
          (operator, exp) = scan_exp [] [] (drop (length f_name) filter_exp)
      in bind_r (case v of VStr s \<Rightarrow> bind_r (strip_quotes s) (\<lambda>s'. Inr (VStr s')) | _ \<Rightarrow> Inr v)
           (\<lambda>v1. bind_r (strip_quotes exp)
             (\<lambda>exp1. bind_r (coerce lib p v1 exp1)
               (\<lambda>(v2, exp2). apply_operator lib operator v2 exp2))))"

section \<open>External collaborators\<close>

text \<open>
  What the managers call and this repository does not define: the string form of a
  value that is neither a string nor an integer, \<^verbatim>\<open>hashlib.sha1(s).hexdigest()\<close>, the store
  (\<^verbatim>\<open>connection.execute(query).fetchall()\<close>, by connection handle and query text),
  \<^verbatim>\<open>connection_manager.get\<close>, the provider classes found by \<^verbatim>\<open>pydoc.locate\<close>
  (\<^term>\<open>None\<close> when there is no such class),
  \<^verbatim>\<open>next(csv.reader([args_str], delimiter=','))\<close> and \<^verbatim>\<open>uuid.uuid4()\<close>.
  A provider class is its methods by attribute name; the \<^verbatim>\<open>__type\<close> helpers, which
  return a type string, are kept apart from the methods that return values.
\<close>

record provider_class =
  methods :: "string \<rightharpoonup> (val list \<Rightarrow> val result)"
  type_methods :: "string \<rightharpoonup> (string list \<Rightarrow> string result)"

record env = pylib +
  str_other :: "nat \<Rightarrow> string"
  sha1_hexdigest :: "string \<Rightarrow> string"
  execute :: "string \<Rightarrow> string \<Rightarrow> val list list result"
  cm_get :: "string \<Rightarrow> string result"
  locate :: "string \<rightharpoonup> provider_class"
  csv_row :: "string \<Rightarrow> string list result"
  uuid4 :: val

text \<open>\<^verbatim>\<open>str(v)\<close>: a string is itself, an integer is written in decimal.\<close>

fun str_nat :: "nat \<Rightarrow> string" where
  "str_nat n =
     (if n < 10 then [''0123456789'' ! n] else str_nat (n div 10) @ [''0123456789'' ! (n mod 10)])"

declare str_nat.simps [simp del]

definition py_str :: "env \<Rightarrow> val \<Rightarrow> string" where
  "py_str ev v =
     (case v of
        VNone \<Rightarrow> ''None''
      | VInt i \<Rightarrow> (if i < 0 then ''-'' @ str_nat (nat (- i)) else str_nat (nat i))
      | VStr s \<Rightarrow> s
      | VOther n \<Rightarrow> str_other ev n)"

section \<open>PropertyManager\<close>

record property_manager =
  user_pk :: property
  properties :: "property list"
  token :: val

type_synonym pyrecord = "string \<rightharpoonup> val"

definition get_primary_key :: "property_manager \<Rightarrow> property option" where
  "get_primary_key pm = find is_pk (properties pm)"

definition get_property_by_name :: "property_manager \<Rightarrow> string \<Rightarrow> property option" where
  "get_property_by_name pm nm = find (\<lambda>prop. name prop = nm) (properties pm)"

subsection \<open>query, all, filter, get\<close>

text \<open>\<^verbatim>\<open>[prop for prop in self.properties if not prop.is_generated()]\<close>\<close>

fun stored_properties :: "property list \<Rightarrow> property list result" where
  "stored_properties [] = Inr []"
| "stored_properties (prop # ps) =
     bind_r (is_generated prop) (\<lambda>g.
       bind_r (stored_properties ps) (\<lambda>rest. Inr (if \<not> g then prop # rest else rest)))"

text \<open>The loop of \<^verbatim>\<open>query\<close> that finds all joins.\<close>

fun join_clause :: "property \<Rightarrow> property list \<Rightarrow> string \<Rightarrow> string result" where
  "join_clause pk [] acc = Inr acc"
| "join_clause pk (prop # ps) acc =
     bind_r (is_generated prop) (\<lambda>g.
       if \<not> g then
         (case user_fk prop of
            Some fk \<Rightarrow>
              join_clause pk ps
                (acc @ ''LEFT OUTER JOIN '' @ table prop @ '' ON '' @ full fk @ ''='' @ full pk @ '' '')
          | None \<Rightarrow> join_clause pk ps acc)
       else join_clause pk ps acc)"

definition query :: "property_manager \<Rightarrow> string result" where
  "query pm =
     bind_r (stored_properties (properties pm)) (\<lambda>stored.
       let select_clause =
             ''SELECT '' @ join '','' (map (\<lambda>prop. full prop @ '' AS '' @ name prop) stored) @ '' '';
           from_clause = ''FROM '' @ table (user_pk pm) @ '' ''
       in bind_r (join_clause (user_pk pm) (properties pm) [])
            (\<lambda>joins. Inr (select_clause @ from_clause @ joins)))"

text \<open>The query text \<^verbatim>\<open>all\<close> executes.\<close>

definition all_query :: "property_manager \<Rightarrow> string result" where
  "all_query pm =
     bind_r (query pm) (\<lambda>q. Inr (q @ '' GROUP BY '' @ full (user_pk pm)))"

text \<open>\<^verbatim>\<open>re.split('[=<>]', f)[0]\<close>, as \<^verbatim>\<open>filter\<close> and \<^verbatim>\<open>filter_by_generated\<close> write it.\<close>

definition filter_name_of :: "string \<Rightarrow> string" where
  "filter_name_of f = takeWhile (\<lambda>c. c \<notin> set ''=<>'') f"

text \<open>The loop of \<^verbatim>\<open>filter\<close> that separates the filters; the triple is
  \<^verbatim>\<open>(filters_generated, filters_concrete, filters_aggregate)\<close>.\<close>

fun separate_filters ::
  "property_manager \<Rightarrow> string list \<Rightarrow> string list \<times> string list \<times> string list
     \<Rightarrow> (string list \<times> string list \<times> string list) result" where
  "separate_filters pm [] acc = Inr acc"
| "separate_filters pm (f # fs) (gen, conc, aggr) =
     (case get_property_by_name pm (filter_name_of f) of
        None \<Rightarrow> Inl AttributeError
      | Some prop \<Rightarrow>
          if \<not> filter_by prop then Inl PropertyNotFoundException
          else bind_r (is_generated prop) (\<lambda>g.
            if g then separate_filters pm fs (gen @ [f], conc, aggr)
            else if aggregate prop = None then separate_filters pm fs (gen, conc @ [f], aggr)
            else separate_filters pm fs (gen, conc, aggr @ [f])))"

datatype filters_arg = FNone | FList "string list" | FStr string

text \<open>\<^verbatim>\<open>filters.replace(' and ', ' AND ').split(' AND ')\<close> unless it is a list already.\<close>

definition filter_list :: "filters_arg \<Rightarrow> string list" where
  "filter_list filters =
     (case filters of
        FList fs \<Rightarrow> fs
      | FStr s \<Rightarrow> split_str '' AND '' [] (replace '' and '' '' AND '' s)
      | FNone \<Rightarrow> [])"

definition falsy :: "filters_arg \<Rightarrow> bool" where
  "falsy filters = (filters = FNone \<or> filters = FList [] \<or> filters = FStr [])"

text \<open>The query text \<^verbatim>\<open>filter\<close> executes, with the filters left for
  \<^verbatim>\<open>filter_by_generated\<close>.\<close>

definition filter_query :: "property_manager \<Rightarrow> filters_arg \<Rightarrow> (string \<times> string list) result" where
  "filter_query pm filters =
     (if falsy filters then bind_r (all_query pm) (\<lambda>q. Inr (q, []))
      else
        bind_r (query pm) (\<lambda>q0.
          bind_r (separate_filters pm (filter_list filters) ([], [], []))
            (\<lambda>(filters_generated, filters_concrete, filters_aggregate).
               let q1 = (if filters_concrete \<noteq> []
                         then q0 @ ''WHERE '' @ join '' AND '' filters_concrete else q0);
                   q2 = q1 @ '' GROUP BY '' @ full (user_pk pm);
                   q3 = (if filters_aggregate \<noteq> []
                         then q2 @ '' HAVING '' @ join '' AND '' filters_aggregate else q2)
               in Inr (q3, filters_generated))))"

text \<open>The query text \<^verbatim>\<open>get\<close> executes.\<close>

definition get_query :: "env \<Rightarrow> property_manager \<Rightarrow> val \<Rightarrow> string result" where
  "get_query ev pm pk =
     (let where_clause = ''WHERE '' @ full (user_pk pm) @ ''='' @ py_str ev pk
      in bind_r (query pm) (\<lambda>q. Inr (q @ where_clause)))"

subsection \<open>info: the row evaluator\<close>

text \<open>\<^verbatim>\<open>row[idx]\<close>: the row is a tuple, or \<^verbatim>\<open>None\<close> when \<^verbatim>\<open>fetchone\<close> found nothing.\<close>

definition row_get :: "val list option \<Rightarrow> nat \<Rightarrow> val result" where
  "row_get row idx = (case row of None \<Rightarrow> Inl TypeError | Some r \<Rightarrow> index_r r idx)"

text \<open>\<^verbatim>\<open>hashlib.sha1(str(self.token) + '###' + str(row[idx])).hexdigest()\<close>\<close>

definition anonymize :: "env \<Rightarrow> val \<Rightarrow> val \<Rightarrow> val" where
  "anonymize ev tok raw = VStr (sha1_hexdigest ev (py_str ev tok @ ''###'' @ py_str ev raw))"

text \<open>First loop of \<^verbatim>\<open>info\<close>: fill property values from the database.\<close>

fun fill_stored ::
  "env \<Rightarrow> val \<Rightarrow> val list option \<Rightarrow> property list \<Rightarrow> nat \<Rightarrow> pyrecord \<Rightarrow> pyrecord result" where
  "fill_stored ev tok row [] idx result = Inr result"
| "fill_stored ev tok row (prop # ps) idx result =
     bind_r (is_generated prop) (\<lambda>g.
       if \<not> g then
         bind_r (row_get row idx) (\<lambda>x.
           fill_stored ev tok row ps (Suc idx)
             (result(name prop \<mapsto> (if is_pk prop then anonymize ev tok x else x))))
       else fill_stored ev tok row ps idx result)"

text \<open>The loop over \<^verbatim>\<open>enumerate(fn_args)\<close>: property names like \<^verbatim>\<open>@age\<close> are replaced
  with their values; a name that \<^verbatim>\<open>result\<close> does not hold is PropertyNotFoundException.\<close>

fun substitute_args :: "pyrecord \<Rightarrow> string list \<Rightarrow> val list result" where
  "substitute_args result [] = Inr []"
| "substitute_args result (fn_arg # rest) =
     (if fn_arg \<noteq> [] \<and> hd fn_arg = CHR ''@'' then
        (case result (tl fn_arg) of
           None \<Rightarrow> Inl PropertyNotFoundException
         | Some v \<Rightarrow> bind_r (substitute_args result rest) (\<lambda>vs. Inr (v # vs)))
      else bind_r (substitute_args result rest) (\<lambda>vs. Inr (VStr fn_arg # vs)))"

text \<open>Second loop of \<^verbatim>\<open>info\<close>: generate other properties, in the order of
  \<^verbatim>\<open>self.properties\<close>.\<close>

fun generate :: "property list \<Rightarrow> pyrecord \<Rightarrow> pyrecord result" where
  "generate [] result = Inr result"
| "generate (prop # ps) result =
     bind_r (is_generated prop) (\<lambda>g.
       if g then
         bind_r (substitute_args result (fn_args prop)) (\<lambda>args.
           bind_r (fn prop args) (\<lambda>v. generate ps (result(name prop \<mapsto> v))))
       else generate ps result)"

text \<open>Last loop of \<^verbatim>\<open>info\<close>: non-exposed properties are removed. Every key of
  \<^verbatim>\<open>result\<close> is the name of a property, since the two loops before write nothing else.\<close>

definition remove_non_exposed :: "property_manager \<Rightarrow> pyrecord \<Rightarrow> pyrecord" where
  "remove_non_exposed pm result =
     (\<lambda>key. case get_property_by_name pm key of
               None \<Rightarrow> None
             | Some prop \<Rightarrow> if filter_by prop then result key else None)"

definition info :: "env \<Rightarrow> property_manager \<Rightarrow> val list option \<Rightarrow> pyrecord result" where
  "info ev pm row =
     bind_r (fill_stored ev (token pm) row (properties pm) 0 Map.empty) (\<lambda>result.
       bind_r (generate (properties pm) result) (\<lambda>result'.
         Inr (remove_non_exposed pm result')))"

text \<open>\<^verbatim>\<open>[self.info(row) for row in rows]\<close>\<close>

fun info_rows :: "env \<Rightarrow> property_manager \<Rightarrow> val list list \<Rightarrow> pyrecord list result" where
  "info_rows ev pm [] = Inr []"
| "info_rows ev pm (row # rows) =
     bind_r (info ev pm (Some row)) (\<lambda>r.
       bind_r (info_rows ev pm rows) (\<lambda>rs. Inr (r # rs)))"

text \<open>\<^verbatim>\<open>self.user_pk.connection.execute(query).fetchall()\<close>\<close>

definition fetchall :: "env \<Rightarrow> property_manager \<Rightarrow> string \<Rightarrow> val list list result" where
  "fetchall ev pm q =
     (case connection (user_pk pm) of
        None \<Rightarrow> Inl AttributeError
      | Some conn \<Rightarrow> execute ev conn q)"

subsection \<open>Running the queries\<close>

definition all_users :: "env \<Rightarrow> property_manager \<Rightarrow> pyrecord list result" where
  "all_users ev pm =
     bind_r (all_query pm) (\<lambda>q. bind_r (fetchall ev pm q) (info_rows ev pm))"

text \<open>Inner loop of \<^verbatim>\<open>filter_by_generated\<close>: the results that match one filter.\<close>

fun keep_matching ::
  "env \<Rightarrow> property \<Rightarrow> string \<Rightarrow> pyrecord list \<Rightarrow> pyrecord list result" where
  "keep_matching ev prop g_filter [] = Inr []"
| "keep_matching ev prop g_filter (r # rs) =
     (case r (name prop) of
        None \<Rightarrow> Inl KeyError
      | Some v \<Rightarrow>
          bind_r (matches ev prop v g_filter) (\<lambda>m.
            bind_r (keep_matching ev prop g_filter rs) (\<lambda>rest.
              Inr (if m then r # rest else rest))))"

fun filter_by_generated ::
  "env \<Rightarrow> property_manager \<Rightarrow> pyrecord list \<Rightarrow> string list \<Rightarrow> pyrecord list result" where
  "filter_by_generated ev pm results [] = Inr results"
| "filter_by_generated ev pm results (g_filter # gs) =
     (case get_property_by_name pm (filter_name_of g_filter) of
        None \<Rightarrow> Inl AttributeError
      | Some prop \<Rightarrow>
          bind_r (is_generated prop) (\<lambda>g.
            if g then
              bind_r (keep_matching ev prop g_filter results)
                (\<lambda>new_results. filter_by_generated ev pm new_results gs)
            else filter_by_generated ev pm results gs))"

definition filter_users :: "env \<Rightarrow> property_manager \<Rightarrow> filters_arg \<Rightarrow> pyrecord list result" where
  "filter_users ev pm filters =
     bind_r (filter_query pm filters) (\<lambda>(q, filters_generated).
       bind_r (fetchall ev pm q) (\<lambda>rows.
         bind_r (info_rows ev pm rows) (\<lambda>result.
           filter_by_generated ev pm result filters_generated)))"

text \<open>\<^verbatim>\<open>fetchone\<close>: the first row, or \<^verbatim>\<open>None\<close>.\<close>

definition get_user :: "env \<Rightarrow> property_manager \<Rightarrow> val \<Rightarrow> pyrecord result" where
  "get_user ev pm pk =
     bind_r (get_query ev pm pk) (\<lambda>q.
       bind_r (fetchall ev pm q) (\<lambda>rows.
         info ev pm (case rows of [] \<Rightarrow> None | row # _ \<Rightarrow> Some row)))"

section \<open>Construction\<close>

text \<open>\<^verbatim>\<open>s.find(c)\<close>: the first index of the character, or -1.\<close>

fun find_char :: "char \<Rightarrow> string \<Rightarrow> int" where
  "find_char c [] = -1"
| "find_char c (x # xs) =
     (if x = c then 0 else (let r = find_char c xs in if r < 0 then -1 else r + 1))"

text \<open>
  The body of \<^verbatim>\<open>Property.__init__\<close>. \<^term>\<open>mk_fk\<close> stands for the nested call \<^verbatim>\<open>Property(self.connection_manager, user_fk,
  user_fk=None)\<close>. An optional argument is \<^term>\<open>None\<close> when it is not given.
\<close>

definition no_fn :: "val list \<Rightarrow> val result" where
  "no_fn args = Inl AttributeError"

definition property_body ::
  "env \<Rightarrow> (string \<Rightarrow> property result) \<Rightarrow> string \<Rightarrow> string option \<Rightarrow> string option
     \<Rightarrow> string option \<Rightarrow> string option \<Rightarrow> string option \<Rightarrow> bool \<Rightarrow> bool \<Rightarrow> property result" where
  "property_body ev mk_fk src user_fk_src name_arg tp_arg aggregate_arg label_arg filter_by_arg is_pk_arg =
     (let parts = split_char CHR ''.'' (split_char CHR ''@'' src ! 0);
          table' = parts ! 0
      in bind_r (index_r parts 1) (\<lambda>column'.
         let name' = (if \<not> truthy name_arg
                      then (if truthy aggregate_arg then column' @ ''__'' @ the aggregate_arg
                            else column')
                      else the name_arg);
             label' = (if \<not> truthy label_arg then name' else the label_arg);
             tp' = (if truthy tp_arg then the tp_arg else ''VARCHAR'')
         in bind_r (case src of [] \<Rightarrow> Inl IndexError | c # _ \<Rightarrow> Inr (c = CHR ''^'')) (\<lambda>g.
           if \<not> g then
             bind_r (index_r (split_char CHR ''@'' src) 1) (\<lambda>conn_name.
               bind_r (cm_get ev conn_name) (\<lambda>conn.
                 bind_r (if truthy user_fk_src
                         then bind_r (mk_fk (the user_fk_src)) (\<lambda>fk. Inr (Some fk))
                         else Inr None) (\<lambda>fk.
                   Inr (Property src table' column' aggregate_arg filter_by_arg is_pk_arg
                          name' label' tp' (Some conn) fk no_fn []))))
           else
             (let cls_name =
                    ''anonymizer.datasource.providers.'' @ tl (split_char CHR ''.'' src ! 0)
              in case locate ev cls_name of
                   None \<Rightarrow> Inl ProviderNotFound
                 | Some cls \<Rightarrow>
                     bind_r (index_r (split_char CHR ''.'' src) 1) (\<lambda>after_dot.
                       let fn_name = split_char CHR ''('' after_dot ! 0
                       in case methods cls fn_name of
                            None \<Rightarrow> Inl ProviderMethodNotFound
                          | Some f \<Rightarrow>
                              (let pos = find_char CHR ''('' src;
                                   args_str = butlast (drop (nat (pos + 1)) src)
                               in bind_r (csv_row ev args_str) (\<lambda>args.
                                    if tp' = ''###'' then
                                      (case type_methods cls (fn_name @ ''__type'') of
                                         None \<Rightarrow> Inl ProviderMethodNotFound
                                       | Some fn_type \<Rightarrow>
                                           bind_r (fn_type args) (\<lambda>t.
                                             Inr (Property src table' column' aggregate_arg
                                                    filter_by_arg is_pk_arg name' label' t
                                                    None None f args)))
                                    else
                                      Inr (Property src table' column' aggregate_arg
                                             filter_by_arg is_pk_arg name' label' tp'
                                             None None f args))))))))"

definition property_init ::
  "env \<Rightarrow> string \<Rightarrow> string option \<Rightarrow> string option \<Rightarrow> string option \<Rightarrow> string option
     \<Rightarrow> string option \<Rightarrow> bool \<Rightarrow> bool \<Rightarrow> property result" where
  "property_init ev =
     property_body ev
       (\<lambda>fk_src. property_body ev (\<lambda>s. Inl TypeError) fk_src None None None None None True False)"

text \<open>
  One entry of \<^verbatim>\<open>configuration.data['sites'][0]['properties']\<close>: a key that is
  absent is \<^term>\<open>None\<close>; reading an absent \<^verbatim>\<open>source\<close>, \<^verbatim>\<open>name\<close> or
  \<^verbatim>\<open>type\<close> is KeyError.
\<close>

record property_info =
  pi_source :: "string option"
  pi_name :: "string option"
  pi_type :: "string option"
  pi_user_fk :: "string option"
  pi_aggregate :: "string option"
  pi_label :: "string option"
  pi_expose :: "bool option"

record configuration =
  cfg_user_pk :: string
  cfg_properties :: "property_info list"

definition key_r :: "'a option \<Rightarrow> 'a result" where
  "key_r x = (case x of None \<Rightarrow> Inl KeyError | Some v \<Rightarrow> Inr v)"

definition property_of_info :: "env \<Rightarrow> property_info \<Rightarrow> property result" where
  "property_of_info ev property_info =
     (let user_fk' = pi_user_fk property_info;
          aggregate' = pi_aggregate property_info
      in bind_r (case pi_label property_info of
                   Some l \<Rightarrow> Inr l
                 | None \<Rightarrow> key_r (pi_name property_info)) (\<lambda>label'.
         let expose = (case pi_expose property_info of Some b \<Rightarrow> b | None \<Rightarrow> True)
         in bind_r (key_r (pi_source property_info)) (\<lambda>src.
              bind_r (key_r (pi_name property_info)) (\<lambda>nm.
                bind_r (key_r (pi_type property_info)) (\<lambda>t.
                  property_init ev src user_fk' (Some nm) (Some t) aggregate' (Some label')
                    expose False)))))"

text \<open>The loop of \<^verbatim>\<open>PropertyManager.__init__\<close> over the configured properties.\<close>

fun properties_of_infos :: "env \<Rightarrow> property_info list \<Rightarrow> property list result" where
  "properties_of_infos ev [] = Inr []"
| "properties_of_infos ev (property_info # rest) =
     bind_r (property_of_info ev property_info) (\<lambda>prop.
       bind_r (properties_of_infos ev rest) (\<lambda>props. Inr (prop # props)))"

definition val_truthy :: "val \<Rightarrow> bool" where
  "val_truthy v =
     (case v of VNone \<Rightarrow> False | VInt i \<Rightarrow> i \<noteq> 0 | VStr s \<Rightarrow> s \<noteq> [] | VOther n \<Rightarrow> True)"

definition property_manager_init ::
  "env \<Rightarrow> configuration \<Rightarrow> val \<Rightarrow> property_manager result" where
  "property_manager_init ev config tok =
     bind_r (property_init ev (cfg_user_pk config) None None None None None True True) (\<lambda>pk.
       bind_r (properties_of_infos ev (cfg_properties config)) (\<lambda>props.
         Inr \<lparr>user_pk = pk, properties = pk # props,
              token = (if \<not> val_truthy tok then uuid4 ev else tok)\<rparr>))"

section \<open>Dependency resolver\<close>

text \<open>
  \<^verbatim>\<open>get_dependencies\<close> calls itself once for every \<^verbatim>\<open>@name\<close> argument. The first
  argument of the model bounds the depth of these calls; \<^term>\<open>None\<close> says that the
  bound was reached, that is, that the call has not returned within that depth.
  For an argument \<^verbatim>\<open>@name\<close> that names no property, \<^verbatim>\<open>dep_prop\<close> is
  \<^verbatim>\<open>None\<close> and the nested call fails at once on \<^verbatim>\<open>prop.is_generated()\<close>, with
  AttributeError.
\<close>

definition bind_f :: "'a result option \<Rightarrow> ('a \<Rightarrow> 'b result option) \<Rightarrow> 'b result option" where
  "bind_f m f =
     (case m of None \<Rightarrow> None | Some (Inl e) \<Rightarrow> Some (Inl e) | Some (Inr x) \<Rightarrow> f x)"

text \<open>The loop over \<^verbatim>\<open>prop.fn_args\<close>; \<^term>\<open>rec_call\<close> is the recursive call.\<close>

fun dependencies_loop ::
  "(property \<Rightarrow> property list result option) \<Rightarrow> property_manager \<Rightarrow> string list
     \<Rightarrow> property list result option" where
  "dependencies_loop rec_call pm [] = Some (Inr [])"
| "dependencies_loop rec_call pm (p_name # rest) =
     (case p_name of
        [] \<Rightarrow> Some (Inl IndexError)
      | c # nm \<Rightarrow>
          if c = CHR ''@'' then
            (case get_property_by_name pm nm of
               None \<Rightarrow> Some (Inl AttributeError)
             | Some dep_prop \<Rightarrow>
                 bind_f (rec_call dep_prop) (\<lambda>deps.
                   bind_f (dependencies_loop rec_call pm rest) (\<lambda>more.
                     Some (Inr (dep_prop # deps @ more)))))
          else dependencies_loop rec_call pm rest)"

primrec get_dependencies ::
  "nat \<Rightarrow> property_manager \<Rightarrow> property \<Rightarrow> property list result option" where
  "get_dependencies 0 pm prop = None"
| "get_dependencies (Suc depth) pm prop =
     (case is_generated prop of
        Inl e \<Rightarrow> Some (Inl e)
      | Inr g \<Rightarrow>
          if g then dependencies_loop (get_dependencies depth pm) pm (fn_args prop)
          else Some (Inr []))"

section \<open>UserManager.combine\<close>

text \<open>The loop over \<^verbatim>\<open>dependencies\<close> that sets \<^verbatim>\<open>dirty\<close>.\<close>

fun is_dirty :: "pyrecord \<Rightarrow> pyrecord \<Rightarrow> property list \<Rightarrow> bool" where
  "is_dirty old_user u [] = False"
| "is_dirty old_user u (dependency # ds) =
     (if old_user (name dependency) = None \<or> u (name dependency) = None then True
      else if u (name dependency) \<noteq> old_user (name dependency) then True
      else is_dirty old_user u ds)"

text \<open>The loop over \<^verbatim>\<open>self.pm.properties\<close> for one matching pair; \<^term>\<open>u\<close> is the
  copy of the new record, updated as the loop goes.\<close>

fun merge_properties ::
  "nat \<Rightarrow> property_manager \<Rightarrow> pyrecord \<Rightarrow> property list \<Rightarrow> pyrecord \<Rightarrow> pyrecord result option" where
  "merge_properties depth pm old_user [] u = Some (Inr u)"
| "merge_properties depth pm old_user (prop # ps) u =
     (case is_generated prop of
        Inl e \<Rightarrow> Some (Inl e)
      | Inr g \<Rightarrow>
          if g then
            bind_f (get_dependencies depth pm prop) (\<lambda>dependencies.
              if \<not> is_dirty old_user u dependencies then
                (case old_user (name prop) of
                   None \<Rightarrow> Some (Inl KeyError)
                 | Some v \<Rightarrow> merge_properties depth pm old_user ps (u(name prop \<mapsto> v)))
              else merge_properties depth pm old_user ps u)
          else merge_properties depth pm old_user ps u)"

text \<open>The loop over \<^verbatim>\<open>old_list\<close> for one new record.\<close>

fun combine_user ::
  "nat \<Rightarrow> property_manager \<Rightarrow> property option \<Rightarrow> pyrecord list \<Rightarrow> pyrecord \<Rightarrow> pyrecord result option" where
  "combine_user depth pm pk [] user = Some (Inr user)"
| "combine_user depth pm pk (old_user # rest) user =
     (case pk of
        None \<Rightarrow> Some (Inl AttributeError)
      | Some pkp \<Rightarrow>
          (case old_user (name pkp) of
             None \<Rightarrow> Some (Inl KeyError)
           | Some old_key \<Rightarrow>
               (case user (name pkp) of
                  None \<Rightarrow> Some (Inl KeyError)
                | Some new_key \<Rightarrow>
                    if old_key = new_key
                    then merge_properties depth pm old_user (properties pm) user
                    else combine_user depth pm pk rest user)))"

fun combine_loop ::
  "nat \<Rightarrow> property_manager \<Rightarrow> property option \<Rightarrow> pyrecord list \<Rightarrow> pyrecord list
     \<Rightarrow> pyrecord list result option" where
  "combine_loop depth pm pk old_list [] = Some (Inr [])"
| "combine_loop depth pm pk old_list (user # users) =
     bind_f (combine_user depth pm pk old_list user) (\<lambda>u.
       bind_f (combine_loop depth pm pk old_list users) (\<lambda>result. Some (Inr (u # result))))"

definition combine ::
  "nat \<Rightarrow> property_manager \<Rightarrow> pyrecord list \<Rightarrow> pyrecord list \<Rightarrow> pyrecord list result option" where
  "combine depth pm old_list new_list =
     combine_loop depth pm (get_primary_key pm) old_list new_list"

section \<open>Example configurations\<close>

text \<open>
  An environment for the examples: one connection \<^verbatim>\<open>db\<close>; a provider class
  \<^verbatim>\<open>Echo\<close> whose method \<^verbatim>\<open>identity\<close> returns its first argument, and a provider
  class \<^verbatim>\<open>Person\<close> whose method \<^verbatim>\<open>first_name\<close> takes no argument;
  \<^verbatim>\<open>csv.reader\<close> on a line that has no quote character and no line break (no field
  for the empty line, else the pieces between the commas). The library functions that
  no example runs are left unspecified.
\<close>

definition identity :: "val list \<Rightarrow> val result" where
  "identity args = (case args of [] \<Rightarrow> Inl IndexError | a # _ \<Rightarrow> Inr a)"

definition first_name :: "val list \<Rightarrow> val result" where
  "first_name args = Inr (VStr ''Alice'')"

definition csv_unquoted :: "string \<Rightarrow> string list result" where
  "csv_unquoted s = Inr (if s = [] then [] else split_char CHR '','' s)"

definition example_env :: env where
  "example_env =
     \<lparr>py_int = undefined, py_float = undefined, py_lt = undefined, py_le = undefined,
      str_other = undefined, sha1_hexdigest = undefined, execute = undefined,
      cm_get = (\<lambda>conn_name. if conn_name = ''db'' then Inr ''db'' else Inl ConnectionError),
      locate =
        [''anonymizer.datasource.providers.Echo'' \<mapsto>
           \<lparr>methods = [''identity'' \<mapsto> identity], type_methods = Map.empty\<rparr>,
         ''anonymizer.datasource.providers.Person'' \<mapsto>
           \<lparr>methods = [''first_name'' \<mapsto> first_name], type_methods = Map.empty\<rparr>],
      csv_row = csv_unquoted,
      uuid4 = VStr ''00000000-0000-4000-8000-000000000000''\<rparr>"

definition info_of :: "string \<Rightarrow> string \<Rightarrow> string \<Rightarrow> property_info" where
  "info_of src nm t =
     \<lparr>pi_source = Some src, pi_name = Some nm, pi_type = Some t, pi_user_fk = None,
      pi_aggregate = None, pi_label = None, pi_expose = None\<rparr>"

text \<open>The primary key \<^verbatim>\<open>users.id@db\<close>, as \<^verbatim>\<open>PropertyManager.__init__\<close> builds it.\<close>

definition pk_id :: property where
  "pk_id = Property ''users.id@db'' ''users'' ''id'' None True True ''id'' ''id'' ''VARCHAR''
             (Some ''db'') None no_fn []"

text \<open>Users with their age and two aggregates over their orders, which share the
  foreign key \<^verbatim>\<open>orders.user_id\<close>.\<close>

definition cfg_orders :: configuration where
  "cfg_orders =
     \<lparr>cfg_user_pk = ''users.id@db'',
      cfg_properties =
        [info_of ''users.age@db'' ''age'' ''INT'',
         (info_of ''orders.total@db'' ''total'' ''INT'')
           \<lparr>pi_user_fk := Some ''orders.user_id@db'', pi_aggregate := Some ''SUM''\<rparr>,
         (info_of ''orders.id@db'' ''n_orders'' ''INT'')
           \<lparr>pi_user_fk := Some ''orders.user_id@db'', pi_aggregate := Some ''COUNT''\<rparr>]\<rparr>"

definition fk_orders :: property where
  "fk_orders = Property ''orders.user_id@db'' ''orders'' ''user_id'' None True False
                 ''user_id'' ''user_id'' ''VARCHAR'' (Some ''db'') None no_fn []"

definition pm_orders :: property_manager where
  "pm_orders =
     \<lparr>user_pk = pk_id,
      properties =
        [pk_id,
         Property ''users.age@db'' ''users'' ''age'' None True False ''age'' ''age'' ''INT''
           (Some ''db'') None no_fn [],
         Property ''orders.total@db'' ''orders'' ''total'' (Some ''SUM'') True False ''total''
           ''total'' ''INT'' (Some ''db'') (Some fk_orders) no_fn [],
         Property ''orders.id@db'' ''orders'' ''id'' (Some ''COUNT'') True False ''n_orders''
           ''n_orders'' ''INT'' (Some ''db'') (Some fk_orders) no_fn []],
      token = VStr ''run1''\<rparr>"

text \<open>Generated properties over the provider \<^verbatim>\<open>Echo\<close>: \<^verbatim>\<open>a\<close> reads the key and
  \<^verbatim>\<open>b\<close> reads \<^verbatim>\<open>a\<close>.\<close>

definition prop_a :: property where
  "prop_a = Property ''^Echo.identity(@id)'' ''^Echo'' ''identity('' None True False ''a'' ''a''
              ''VARCHAR'' None None identity [''@id'']"

definition prop_b :: property where
  "prop_b = Property ''^Echo.identity(@a)'' ''^Echo'' ''identity('' None True False ''b'' ''b''
              ''VARCHAR'' None None identity [''@a'']"

definition cfg_ordered :: configuration where
  "cfg_ordered =
     \<lparr>cfg_user_pk = ''users.id@db'',
      cfg_properties = [info_of ''^Echo.identity(@id)'' ''a'' ''VARCHAR'',
                        info_of ''^Echo.identity(@a)'' ''b'' ''VARCHAR'']\<rparr>"

definition pm_ordered :: property_manager where
  "pm_ordered = \<lparr>user_pk = pk_id, properties = [pk_id, prop_a, prop_b], token = VStr ''run1''\<rparr>"

text \<open>The same two properties, \<^verbatim>\<open>b\<close> declared first: no cycle.\<close>

definition cfg_unordered :: configuration where
  "cfg_unordered =
     \<lparr>cfg_user_pk = ''users.id@db'',
      cfg_properties = [info_of ''^Echo.identity(@a)'' ''b'' ''VARCHAR'',
                        info_of ''^Echo.identity(@id)'' ''a'' ''VARCHAR'']\<rparr>"

definition pm_unordered :: property_manager where
  "pm_unordered = \<lparr>user_pk = pk_id, properties = [pk_id, prop_b, prop_a], token = VStr ''run1''\<rparr>"

text \<open>A generated property that reads \<^verbatim>\<open>nickname\<close>, which no property declares.\<close>

definition prop_nick :: property where
  "prop_nick = Property ''^Echo.identity(@nickname)'' ''^Echo'' ''identity('' None True False
                 ''nick'' ''nick'' ''VARCHAR'' None None identity [''@nickname'']"

definition cfg_undeclared :: configuration where
  "cfg_undeclared =
     \<lparr>cfg_user_pk = ''users.id@db'',
      cfg_properties = [info_of ''^Echo.identity(@nickname)'' ''nick'' ''VARCHAR'']\<rparr>"

definition pm_undeclared :: property_manager where
  "pm_undeclared = \<lparr>user_pk = pk_id, properties = [pk_id, prop_nick], token = VStr ''run1''\<rparr>"

text \<open>A second stored property on the key column.\<close>

definition cfg_alias :: configuration where
  "cfg_alias =
     \<lparr>cfg_user_pk = ''users.id@db'',
      cfg_properties = [info_of ''users.id@db'' ''user_id'' ''INT'']\<rparr>"

definition pm_alias :: property_manager where
  "pm_alias =
     \<lparr>user_pk = pk_id,
      properties =
        [pk_id,
         Property ''users.id@db'' ''users'' ''id'' None True False ''user_id'' ''user_id'' ''INT''
           (Some ''db'') None no_fn []],
      token = VStr ''run1''\<rparr>"

text \<open>Two generated properties that read each other.\<close>

definition prop_x :: property where
  "prop_x = Property ''^Echo.identity(@y)'' ''^Echo'' ''identity('' None True False ''x'' ''x''
              ''VARCHAR'' None None identity [''@y'']"

definition prop_y :: property where
  "prop_y = Property ''^Echo.identity(@x)'' ''^Echo'' ''identity('' None True False ''y'' ''y''
              ''VARCHAR'' None None identity [''@x'']"

definition cfg_cyclic :: configuration where
  "cfg_cyclic =
     \<lparr>cfg_user_pk = ''users.id@db'',
      cfg_properties = [info_of ''^Echo.identity(@y)'' ''x'' ''VARCHAR'',
                        info_of ''^Echo.identity(@x)'' ''y'' ''VARCHAR'']\<rparr>"

definition pm_cyclic :: property_manager where
  "pm_cyclic = \<lparr>user_pk = pk_id, properties = [pk_id, prop_x, prop_y], token = VStr ''run1''\<rparr>"

text \<open>A generated first name that reads no property, and a greeting that reads it.\<close>

definition prop_first :: property where
  "prop_first = Property ''^Person.first_name()'' ''^Person'' ''first_name()'' None True False
                  ''first'' ''first'' ''VARCHAR'' None None first_name []"

definition prop_greeting :: property where
  "prop_greeting = Property ''^Echo.identity(@first)'' ''^Echo'' ''identity('' None True False
                     ''greeting'' ''greeting'' ''VARCHAR'' None None identity [''@first'']"

definition cfg_chain :: configuration where
  "cfg_chain =
     \<lparr>cfg_user_pk = ''users.id@db'',
      cfg_properties = [info_of ''^Person.first_name()'' ''first'' ''VARCHAR'',
                        info_of ''^Echo.identity(@first)'' ''greeting'' ''VARCHAR'']\<rparr>"

definition pm_chain :: property_manager where
  "pm_chain =
     \<lparr>user_pk = pk_id, properties = [pk_id, prop_first, prop_greeting], token = VStr ''run1''\<rparr>"

text \<open>A generated property that reads no property and is not exposed.\<close>

definition prop_salt :: property where
  "prop_salt = Property ''^Person.first_name()'' ''^Person'' ''first_name()'' None False False
                 ''salt'' ''salt'' ''VARCHAR'' None None first_name []"

definition cfg_hidden :: configuration where
  "cfg_hidden =
     \<lparr>cfg_user_pk = ''users.id@db'',
      cfg_properties =
        [(info_of ''^Person.first_name()'' ''salt'' ''VARCHAR'')\<lparr>pi_expose := Some False\<rparr>]\<rparr>"

definition pm_hidden :: property_manager where
  "pm_hidden = \<lparr>user_pk = pk_id, properties = [pk_id, prop_salt], token = VStr ''run1''\<rparr>"



section \<open>Vocabulary of the properties\<close>

text \<open>A stored property: \<^verbatim>\<open>is_generated\<close> returns \<^verbatim>\<open>False\<close>; a generated one: it
  returns \<^verbatim>\<open>True\<close>.\<close>

definition stored :: "property \<Rightarrow> bool" where
  "stored p = (is_generated p = Inr False)"

definition generated :: "property \<Rightarrow> bool" where
  "generated p = (is_generated p = Inr True)"

text \<open>
  The references of the generated properties of a list, read in declaration order, are
  available: every argument \<^verbatim>\<open>@name\<close> names a key that \<^verbatim>\<open>result\<close> holds when the
  property is evaluated, that is, one of \<^term>\<open>avail\<close> (the stored properties, which
  \<^verbatim>\<open>info\<close> fills first) or a generated property declared before it.
\<close>

definition is_ref :: "string \<Rightarrow> bool" where
  "is_ref a = (a \<noteq> [] \<and> hd a = CHR ''@'')"

fun refs_ordered :: "string list \<Rightarrow> property list \<Rightarrow> bool" where
  "refs_ordered avail [] = True"
| "refs_ordered avail (p # ps) =
     (if generated p
      then list_all (\<lambda>a. is_ref a \<longrightarrow> tl a \<in> set avail) (fn_args p)
           \<and> refs_ordered (name p # avail) ps
      else refs_ordered avail ps)"




section \<open>Verified properties\<close>

subsection \<open>The filter engine\<close>

lemma scan_exp_ops:
  "set ops \<subseteq> set ''=<>!'' \<Longrightarrow> scan_exp operator [] ops = (operator @ ops, [])"
  by (induction ops arbitrary: operator) auto

lemma f_name_of_append:
  "\<forall>c\<in>set nm. \<not> is_op_char c \<Longrightarrow> set ops \<subseteq> set ''=!<>'' \<Longrightarrow> f_name_of (nm @ ops) = nm"
  unfolding f_name_of_def
  by (cases ops) (auto simp: is_op_char_def subset_iff)

text \<open>
  Claim C10. A filter expression that ends with its operator (a name free of operator
  characters, then operator characters only, such as \<^verbatim>\<open>age=\<close>) leaves the operand
  empty, and \<^verbatim>\<open>matches\<close> then raises IndexError when it strips the quotes of the
  operand: the value itself, not being the empty string, has passed its own quote
  stripping, and neither the unknown-operator error nor a ValueError is reached.
\<close>

theorem matches_empty_operand_IndexError:
  assumes "\<forall>c\<in>set nm. \<not> is_op_char c" and "set ops \<subseteq> set ''=!<>''" and "v \<noteq> VStr []"
  shows "matches lib p v (nm @ ops) = Inl IndexError"
proof -
  have f: "f_name_of (nm @ ops) = nm"
    using assms(1,2) by (rule f_name_of_append)
  have "set ops \<subseteq> set ''=<>!''"
    using assms(2) by auto
  then have s: "scan_exp [] [] ops = (ops, [])"
    using scan_exp_ops [of ops "[]"] by simp
  show ?thesis
    using assms(3)
    by (cases v)
       (auto simp: matches_def f s bind_r_def strip_quotes_def split: list.splits sum.splits)
qed

theorem matches_empty_operand_IndexError_witness:
  "\<forall>lib p. matches lib p (VStr ''5'') ''age='' = Inl IndexError"
proof (intro allI)
  fix lib :: "'a pylib_scheme" and p
  show "matches lib p (VStr ''5'') ''age='' = Inl IndexError"
    using matches_empty_operand_IndexError [of "''age''" "''=''" "VStr ''5''" lib p]
    by (simp add: is_op_char_def)
qed

subsection \<open>The query planner\<close>

lemma is_generated_cases:
  "source p \<noteq> [] \<Longrightarrow> is_generated p = Inr (hd (source p) = CHR ''^'')"
  by (cases "source p") (auto simp: is_generated_def)

lemma stored_properties_filter:
  "\<forall>p\<in>set ps. source p \<noteq> [] \<Longrightarrow> stored_properties ps = Inr (filter stored ps)"
  by (induction ps) (auto simp: bind_r_def stored_def is_generated_cases)

lemma join_clause_concat:
  "\<forall>p\<in>set ps. source p \<noteq> [] \<Longrightarrow>
   join_clause pk ps acc =
     Inr (acc @ concat (map (\<lambda>p. ''LEFT OUTER JOIN '' @ table p @ '' ON '' @ full (the (user_fk p))
                                @ ''='' @ full pk @ '' '')
                         (filter (\<lambda>p. stored p \<and> user_fk p \<noteq> None) ps)))"
proof (induction ps arbitrary: acc)
  case Nil
  then show ?case by simp
next
  case (Cons p ps)
  then have ne: "source p \<noteq> []" and rest: "\<forall>p\<in>set ps. source p \<noteq> []"
    by auto
  show ?case
    using Cons.IH [OF rest]
    by (cases "user_fk p") (auto simp: bind_r_def stored_def is_generated_cases [OF ne])
qed

text \<open>
  The text that \<^verbatim>\<open>query\<close> returns: the select list, the root table, and one
  LEFT OUTER JOIN for every stored property that carries a foreign key, in declaration
  order. (Every property built by \<^verbatim>\<open>Property.__init__\<close> has a non-empty source.)
\<close>

lemma query_text:
  assumes "\<forall>p\<in>set (properties pm). source p \<noteq> []"
  shows "query pm =
     Inr (''SELECT ''
          @ join '','' (map (\<lambda>p. full p @ '' AS '' @ name p) (filter stored (properties pm)))
          @ '' FROM '' @ table (user_pk pm) @ '' ''
          @ concat (map (\<lambda>p. ''LEFT OUTER JOIN '' @ table p @ '' ON '' @ full (the (user_fk p))
                               @ ''='' @ full (user_pk pm) @ '' '')
                        (filter (\<lambda>p. stored p \<and> user_fk p \<noteq> None) (properties pm))))"
  using assms
  by (simp add: query_def bind_r_def stored_properties_filter join_clause_concat)

text \<open>
  Claim C8 at two properties on one foreign-key table. \<^verbatim>\<open>total\<close> and
  \<^verbatim>\<open>n_orders\<close> both reach the table \<^verbatim>\<open>orders\<close> through the foreign key
  \<^verbatim>\<open>orders.user_id\<close>. The claim allows one LEFT OUTER JOIN of \<^verbatim>\<open>orders\<close>; the loop
  of \<^verbatim>\<open>query\<close> keeps no record of the tables already joined, and the planned query
  joins \<^verbatim>\<open>orders\<close> twice, with the same condition.
\<close>

theorem query_repeats_join:
  "query pm_orders =
     Inr ''SELECT users.id AS id,users.age AS age,SUM(orders.total) AS total,COUNT(orders.id) AS n_orders FROM users LEFT OUTER JOIN orders ON orders.user_id=users.id LEFT OUTER JOIN orders ON orders.user_id=users.id ''"
  by (simp add: query_def bind_r_def is_generated_def full_def truthy_def
      pm_orders_def pk_id_def fk_orders_def)







text \<open>
  Claim C6 at the operator \<^verbatim>\<open>!=\<close>. \<^verbatim>\<open>filter\<close> finds the property name with
  \<^verbatim>\<open>re.split('[=<>]', f)[0]\<close>, a character class without \<^verbatim>\<open>!\<close> (the one in
  \<^verbatim>\<open>matches\<close> has it): for \<^verbatim>\<open>age!=30\<close> it looks up the name \<^verbatim>\<open>age!\<close>, finds no
  property and fails on \<^verbatim>\<open>prop.filter_by\<close>, where \<^verbatim>\<open>age>=30\<close> is routed into the
  WHERE clause.
\<close>

theorem filter_not_equal_AttributeError:
  "\<forall>ev. filter_users ev pm_orders (FStr ''age!=30'') = Inl AttributeError
     \<and> filter_query pm_orders (FStr ''age>=30'') =
         Inr (''SELECT users.id AS id,users.age AS age,SUM(orders.total) AS total,COUNT(orders.id) AS n_orders FROM users LEFT OUTER JOIN orders ON orders.user_id=users.id LEFT OUTER JOIN orders ON orders.user_id=users.id WHERE age>=30 GROUP BY users.id'', [])"
  by (simp add: filter_users_def filter_query_def falsy_def filter_list_def filter_name_of_def
      get_property_by_name_def query_def bind_r_def is_generated_def full_def truthy_def
      pm_orders_def pk_id_def fk_orders_def)

subsection \<open>The row evaluator\<close>

lemma stored_or_generated:
  "source p \<noteq> [] \<Longrightarrow> stored p \<noteq> generated p"
  by (auto simp: stored_def generated_def is_generated_cases)

lemma fill_stored_returns:
  assumes "\<forall>p\<in>set ps. source p \<noteq> []"
    and "idx + length (filter stored ps) \<le> length row"
  shows "\<exists>r. fill_stored ev tok (Some row) ps idx result = Inr r
           \<and> dom r = dom result \<union> name ` set (filter stored ps)"
  using assms
proof (induction ps arbitrary: idx result)
  case Nil
  then show ?case by simp
next
  case (Cons p ps)
  then have ne: "source p \<noteq> []" and rest: "\<forall>p\<in>set ps. source p \<noteq> []"
    by auto
  show ?case
  proof (cases "stored p")
    case True
    then have g: "is_generated p = Inr False" by (simp add: stored_def)
    from True Cons.prems(2) have len: "idx < length row" "Suc idx + length (filter stored ps) \<le> length row"
      by auto
    from Cons.IH [OF rest len(2)] obtain r where
      r: "fill_stored ev tok (Some row) ps (Suc idx)
            (result(name p \<mapsto> (if is_pk p then anonymize ev tok (row ! idx) else row ! idx))) = Inr r"
         "dom r = dom (result(name p \<mapsto> (if is_pk p then anonymize ev tok (row ! idx) else row ! idx)))
                    \<union> name ` set (filter stored ps)"
      by blast
    show ?thesis
      using r True len(1) by (auto simp: g bind_r_def row_get_def index_r_def)
  next
    case False
    then have g: "is_generated p = Inr True"
      using is_generated_cases [OF ne] by (auto simp: stored_def)
    from False Cons.prems(2) have len: "idx + length (filter stored ps) \<le> length row"
      by auto
    show ?thesis
      using Cons.IH [OF rest len] False by (simp add: g bind_r_def)
  qed
qed

lemma substitute_args_cases:
  "substitute_args result args =
     (if list_all (\<lambda>a. is_ref a \<longrightarrow> tl a \<in> dom result) args
      then Inr (map (\<lambda>a. if is_ref a then the (result (tl a)) else VStr a) args)
      else Inl PropertyNotFoundException)"
  by (induction args) (auto simp: is_ref_def bind_r_def split: option.splits)

lemma generate_cases:
  assumes "\<forall>p\<in>set ps. source p \<noteq> []"
    and "\<forall>p\<in>set ps. generated p \<longrightarrow> (\<forall>args. length args = length (fn_args p) \<longrightarrow> (\<exists>v. fn p args = Inr v))"
    and "set avail = dom result"
  shows "(refs_ordered avail ps \<longrightarrow> (\<exists>r. generate ps result = Inr r))
       \<and> (\<not> refs_ordered avail ps \<longrightarrow> generate ps result = Inl PropertyNotFoundException)"
  using assms
proof (induction ps arbitrary: avail result)
  case Nil
  then show ?case by simp
next
  case (Cons p ps)
  then have ne: "source p \<noteq> []" and rest: "\<forall>p\<in>set ps. source p \<noteq> []"
    and fns: "\<forall>p\<in>set ps. generated p \<longrightarrow> (\<forall>args. length args = length (fn_args p) \<longrightarrow> (\<exists>v. fn p args = Inr v))"
    by auto
  show ?case
  proof (cases "generated p")
    case False
    then have g: "is_generated p = Inr False"
      using is_generated_cases [OF ne] by (auto simp: generated_def)
    show ?thesis
      using Cons.IH [OF rest fns Cons.prems(3)] False by (simp add: g bind_r_def)
  next
    case True
    then have g: "is_generated p = Inr True" by (simp add: generated_def)
    show ?thesis
    proof (cases "list_all (\<lambda>a. is_ref a \<longrightarrow> tl a \<in> dom result) (fn_args p)")
      case False
      then show ?thesis
        using True Cons.prems(3) by (simp add: g bind_r_def substitute_args_cases)
    next
      case ok: True
      define args where "args = map (\<lambda>a. if is_ref a then the (result (tl a)) else VStr a) (fn_args p)"
      have "length args = length (fn_args p)"
        by (simp add: args_def)
      with Cons.prems(2) True obtain v where v: "fn p args = Inr v"
        by (meson list.set_intros(1))
      have dom: "set (name p # avail) = dom (result(name p \<mapsto> v))"
        using Cons.prems(3) by auto
      have eq: "generate (p # ps) result = generate ps (result(name p \<mapsto> v))"
        using ok v by (simp add: g bind_r_def substitute_args_cases args_def)
      have ro: "refs_ordered avail (p # ps) = refs_ordered (name p # avail) ps"
        using True ok Cons.prems(3) by simp
      show ?thesis
        unfolding eq ro by (rule Cons.IH [OF rest fns dom])
    qed
  qed
qed

lemma info_cases:
  assumes "\<forall>p\<in>set (properties pm). source p \<noteq> []"
    and "length (filter stored (properties pm)) \<le> length row"
    and "\<forall>p\<in>set (properties pm). generated p \<longrightarrow> (\<forall>args. length args = length (fn_args p) \<longrightarrow> (\<exists>v. fn p args = Inr v))"
  shows "(refs_ordered (map name (filter stored (properties pm))) (properties pm)
            \<longrightarrow> (\<exists>r. info ev pm (Some row) = Inr r))
       \<and> (\<not> refs_ordered (map name (filter stored (properties pm))) (properties pm)
            \<longrightarrow> info ev pm (Some row) = Inl PropertyNotFoundException)"
proof -
  from fill_stored_returns [OF assms(1), of 0 row ev "token pm" Map.empty] assms(2)
  obtain r0 where r0: "fill_stored ev (token pm) (Some row) (properties pm) 0 Map.empty = Inr r0"
    "dom r0 = name ` set (filter stored (properties pm))"
    by auto
  have dom: "set (map name (filter stored (properties pm))) = dom r0"
    using r0(2) by simp
  from generate_cases [OF assms(1) assms(3) dom]
  show ?thesis
    by (auto simp: info_def r0(1) bind_r_def)
qed

text \<open>
  Claim C2, as the code has it. \<^verbatim>\<open>info\<close> computes the generated properties in
  declaration order and never reorders them. For a row with a column for every stored
  property, and providers that return a value for as many arguments as configured,
  \<^verbatim>\<open>info\<close> returns a record when every \<^verbatim>\<open>@name\<close> argument names a stored property
  or a generated property declared before the one that reads it; otherwise, also when the
  property set has no cycle, a substitution finds its value absent and \<^verbatim>\<open>info\<close>
  raises PropertyNotFoundException.
\<close>

theorem info_evaluates_in_declaration_order:
  assumes "\<forall>p\<in>set (properties pm). source p \<noteq> []"
    and "length (filter stored (properties pm)) \<le> length row"
    and "\<forall>p\<in>set (properties pm). generated p \<longrightarrow> (\<forall>args. length args = length (fn_args p) \<longrightarrow> (\<exists>v. fn p args = Inr v))"
  shows "(refs_ordered (map name (filter stored (properties pm))) (properties pm)
            \<longrightarrow> (\<exists>r. info ev pm (Some row) = Inr r))
       \<and> (\<not> refs_ordered (map name (filter stored (properties pm))) (properties pm)
            \<longrightarrow> info ev pm (Some row) = Inl PropertyNotFoundException)"
  using assms by (rule info_cases)

theorem info_evaluates_in_declaration_order_witness:
  "\<forall>ev. (\<exists>r. info ev pm_ordered (Some [VInt 7]) = Inr r)
      \<and> info ev pm_unordered (Some [VInt 7]) = Inl PropertyNotFoundException"
proof
  fix ev
  have s: "stored pk_id" "\<not> stored prop_a" "\<not> stored prop_b"
          "\<not> generated pk_id" "generated prop_a" "generated prop_b"
    by (simp_all add: stored_def generated_def is_generated_def pk_id_def prop_a_def prop_b_def)
  have o: "\<forall>p\<in>set (properties pm_ordered). source p \<noteq> []"
       "\<forall>p\<in>set (properties pm_unordered). source p \<noteq> []"
    by (simp_all add: pm_ordered_def pm_unordered_def pk_id_def prop_a_def prop_b_def)
  have l: "length (filter stored (properties pm_ordered)) \<le> length [VInt 7]"
       "length (filter stored (properties pm_unordered)) \<le> length [VInt 7]"
    by (simp_all add: pm_ordered_def pm_unordered_def s)
  have f: "\<forall>p\<in>set (properties pm_ordered). generated p \<longrightarrow>
             (\<forall>args. length args = length (fn_args p) \<longrightarrow> (\<exists>v. fn p args = Inr v))"
       "\<forall>p\<in>set (properties pm_unordered). generated p \<longrightarrow>
             (\<forall>args. length args = length (fn_args p) \<longrightarrow> (\<exists>v. fn p args = Inr v))"
    by (auto simp: pm_ordered_def pm_unordered_def s prop_a_def prop_b_def identity_def
             split: list.splits)
  have r: "refs_ordered (map name (filter stored (properties pm_ordered))) (properties pm_ordered)"
       "\<not> refs_ordered (map name (filter stored (properties pm_unordered))) (properties pm_unordered)"
    by (simp_all add: pm_ordered_def pm_unordered_def s is_ref_def)
       (simp_all add: pk_id_def prop_a_def prop_b_def)
  show "(\<exists>r. info ev pm_ordered (Some [VInt 7]) = Inr r)
      \<and> info ev pm_unordered (Some [VInt 7]) = Inl PropertyNotFoundException"
    using info_evaluates_in_declaration_order [OF o(1) l(1) f(1), of ev]
          info_evaluates_in_declaration_order [OF o(2) l(2) f(2), of ev] r
    by blast
qed

text \<open>
  Claim C2 as stated fails: \<^verbatim>\<open>b\<close> reads \<^verbatim>\<open>a\<close>, \<^verbatim>\<open>a\<close> reads the key, and
  \<^verbatim>\<open>b\<close> is declared first. The set has no cycle (the dependencies of \<^verbatim>\<open>b\<close> are
  \<^verbatim>\<open>a\<close> and the key), yet \<^verbatim>\<open>b\<close> is evaluated before \<^verbatim>\<open>a\<close> and every row fails.
\<close>

theorem info_declared_later_counterexample:
  "\<forall>ev. info ev pm_unordered (Some [VInt 7]) = Inl PropertyNotFoundException
      \<and> get_dependencies 3 pm_unordered prop_b = Some (Inr [prop_a, pk_id])"
  by (simp add: info_def bind_r_def bind_f_def is_generated_def row_get_def index_r_def
      get_property_by_name_def pm_unordered_def pk_id_def prop_a_def prop_b_def
      numeral_3_eq_3)

subsection \<open>Construction and undeclared references\<close>

lemma property_body_source:
  assumes "property_body ev mk_fk src fk nm t ag lb fb pk = Inr p"
  shows "source p = src \<and> src \<noteq> []"
proof (cases src)
  case Nil
  then show ?thesis
    using assms by (simp add: property_body_def bind_r_def index_r_def)
next
  case (Cons c cs)
  have "source p = src"
    using assms
    by (auto simp: property_body_def bind_r_def Let_def
             split: sum.splits option.splits if_splits)
  then show ?thesis using Cons by simp
qed

lemma property_init_source:
  "property_init ev src fk nm t ag lb fb pk = Inr p \<Longrightarrow> source p \<noteq> []"
  using property_body_source by (fastforce simp: property_init_def)

lemma properties_of_infos_source:
  "properties_of_infos ev infos = Inr ps \<Longrightarrow> \<forall>p\<in>set ps. source p \<noteq> []"
proof (induction infos arbitrary: ps)
  case Nil
  then show ?case by simp
next
  case (Cons i infos)
  then obtain p ps' where p: "property_of_info ev i = Inr p"
    and ps': "properties_of_infos ev infos = Inr ps'" and eq: "ps = p # ps'"
    by (auto simp: bind_r_def split: sum.splits)
  have "source p \<noteq> []"
    using p property_init_source
    by (auto simp: property_of_info_def bind_r_def Let_def key_r_def split: sum.splits option.splits)
  then show ?case
    using Cons.IH [OF ps'] eq by simp
qed

lemma property_manager_init_source:
  assumes "property_manager_init ev config tok = Inr pm"
  shows "\<forall>p\<in>set (properties pm). source p \<noteq> []"
proof -
  from assms obtain pk ps where pk: "property_init ev (cfg_user_pk config) None None None None None True True = Inr pk"
    and ps: "properties_of_infos ev (cfg_properties config) = Inr ps"
    and pm: "properties pm = pk # ps"
    by (auto simp: property_manager_init_def bind_r_def split: sum.splits)
  show ?thesis
    using property_init_source [OF pk] properties_of_infos_source [OF ps] pm by simp
qed

lemma refs_ordered_names:
  "refs_ordered avail ps \<Longrightarrow> p \<in> set ps \<Longrightarrow> generated p \<Longrightarrow> a \<in> set (fn_args p) \<Longrightarrow> is_ref a
     \<Longrightarrow> tl a \<in> set avail \<union> name ` set ps"
proof (induction ps arbitrary: avail)
  case Nil
  then show ?case by simp
next
  case (Cons q ps)
  show ?case
  proof (cases "p = q")
    case True
    then show ?thesis
      using Cons.prems by (auto simp: list_all_iff)
  next
    case False
    then have "p \<in> set ps" using Cons.prems(2) by simp
    moreover have "refs_ordered (if generated q then name q # avail else avail) ps"
      using Cons.prems(1) by (simp split: if_splits)
    ultimately have "tl a \<in> set (if generated q then name q # avail else avail) \<union> name ` set ps"
      using Cons.IH Cons.prems(3-5) by blast
    then show ?thesis by (auto split: if_splits)
  qed
qed

text \<open>
  Claim C5, as the code has it. Neither \<^verbatim>\<open>Property.__init__\<close> nor
  \<^verbatim>\<open>PropertyManager.__init__\<close> looks a \<^verbatim>\<open>@name\<close> argument up, so a reference to an
  undeclared property does not fail construction. It is found when a row is evaluated:
  for a manager that construction has returned, with a generated property one of whose
  arguments is \<^verbatim>\<open>@nm\<close> where no property is named \<^verbatim>\<open>nm\<close>, \<^verbatim>\<open>info\<close> raises
  PropertyNotFoundException on every row (the row having a column for every stored
  property, the providers returning a value for as many arguments as configured).
\<close>

theorem undeclared_ref_found_at_evaluation:
  assumes "property_manager_init ev config tok = Inr pm"
    and "p \<in> set (properties pm)" and "generated p"
    and "(CHR ''@'' # nm) \<in> set (fn_args p)"
    and "get_property_by_name pm nm = None"
    and "length (filter stored (properties pm)) \<le> length row"
    and "\<forall>p\<in>set (properties pm). generated p \<longrightarrow>
           (\<forall>args. length args = length (fn_args p) \<longrightarrow> (\<exists>v. fn p args = Inr v))"
  shows "info ev pm (Some row) = Inl PropertyNotFoundException"
proof -
  have src: "\<forall>p\<in>set (properties pm). source p \<noteq> []"
    using assms(1) by (rule property_manager_init_source)
  have none: "nm \<notin> name ` set (properties pm)"
    using assms(5) by (auto simp: get_property_by_name_def find_None_iff)
  have "\<not> refs_ordered (map name (filter stored (properties pm))) (properties pm)"
  proof
    assume "refs_ordered (map name (filter stored (properties pm))) (properties pm)"
    from refs_ordered_names [OF this assms(2,3,4)]
    have "nm \<in> name ` set (properties pm)"
      by (auto simp: is_ref_def)
    with none show False by simp
  qed
  then show ?thesis
    using info_cases [OF src assms(6,7)] by blast
qed

theorem undeclared_ref_found_at_evaluation_witness:
  "info example_env pm_undeclared (Some [VInt 7]) = Inl PropertyNotFoundException"
proof -
  have c: "property_manager_init example_env cfg_undeclared (VStr ''run1'') = Inr pm_undeclared"
    by (simp add: property_manager_init_def property_init_def property_body_def bind_r_def
      index_r_def truthy_def info_of_def pk_id_def example_env_def property_of_info_def key_r_def
      val_truthy_def Let_def csv_unquoted_def cfg_undeclared_def pm_undeclared_def prop_nick_def)
  have s: "stored pk_id" "\<not> stored prop_nick" "\<not> generated pk_id" "generated prop_nick"
    by (simp_all add: stored_def generated_def is_generated_def pk_id_def prop_nick_def)
  have 2: "prop_nick \<in> set (properties pm_undeclared)" by (simp add: pm_undeclared_def)
  have 4: "(CHR ''@'' # ''nickname'') \<in> set (fn_args prop_nick)" by (simp add: prop_nick_def)
  have 5: "get_property_by_name pm_undeclared ''nickname'' = None"
    by (simp add: get_property_by_name_def pm_undeclared_def pk_id_def prop_nick_def)
  have 6: "length (filter stored (properties pm_undeclared)) \<le> length [VInt 7]"
    by (simp add: pm_undeclared_def s)
  have 7: "\<forall>p\<in>set (properties pm_undeclared). generated p \<longrightarrow>
           (\<forall>args. length args = length (fn_args p) \<longrightarrow> (\<exists>v. fn p args = Inr v))"
    by (auto simp: pm_undeclared_def s prop_nick_def identity_def split: list.splits)
  show ?thesis
    using undeclared_ref_found_at_evaluation [OF c 2 s(4) 4 5 6 7] .
qed

text \<open>
  Claim C5 as stated fails: the configuration declares the key and a generated property
  \<^verbatim>\<open>^Echo.identity(@nickname)\<close>; no property is named \<^verbatim>\<open>nickname\<close>, and
  construction returns the manager.
\<close>

theorem construction_accepts_undeclared_ref_counterexample:
  "property_manager_init example_env cfg_undeclared (VStr ''run1'') = Inr pm_undeclared
     \<and> fn_args prop_nick = [''@nickname'']
     \<and> get_property_by_name pm_undeclared ''nickname'' = None"
  by (simp add: property_manager_init_def property_init_def property_body_def bind_r_def
      index_r_def truthy_def info_of_def pk_id_def example_env_def property_of_info_def key_r_def
      val_truthy_def Let_def csv_unquoted_def cfg_undeclared_def pm_undeclared_def prop_nick_def
      get_property_by_name_def)

subsection \<open>The anonymized key\<close>

lemma fill_stored_other:
  "fill_stored ev tok row ps idx result = Inr r \<Longrightarrow> k \<notin> name ` set ps \<Longrightarrow> r k = result k"
proof (induction ps arbitrary: idx result)
  case Nil
  then show ?case by simp
next
  case (Cons p ps)
  show ?case
  proof (cases "is_generated p")
    case (Inl e)
    then show ?thesis using Cons.prems by (simp add: bind_r_def)
  next
    case (Inr g)
    show ?thesis
    proof (cases g)
      case True
      then show ?thesis
        using Cons.prems Cons.IH Inr by (simp add: bind_r_def)
    next
      case False
      then obtain x where "fill_stored ev tok row ps (Suc idx)
              (result(name p \<mapsto> (if is_pk p then anonymize ev tok x else x))) = Inr r"
        using Cons.prems(1) Inr by (auto simp: bind_r_def split: sum.splits)
      from Cons.IH [OF this] Cons.prems(2) show ?thesis by simp
    qed
  qed
qed

lemma generate_other:
  "generate ps result = Inr r \<Longrightarrow> k \<notin> name ` set ps \<Longrightarrow> r k = result k"
proof (induction ps arbitrary: result)
  case Nil
  then show ?case by simp
next
  case (Cons p ps)
  show ?case
  proof (cases "is_generated p")
    case (Inl e)
    then show ?thesis using Cons.prems by (simp add: bind_r_def)
  next
    case (Inr g)
    show ?thesis
    proof (cases g)
      case False
      then show ?thesis
        using Cons.prems Cons.IH Inr by (simp add: bind_r_def)
    next
      case True
      then obtain v where "generate ps (result(name p \<mapsto> v)) = Inr r"
        using Cons.prems(1) Inr by (auto simp: bind_r_def split: sum.splits)
      from Cons.IH [OF this] Cons.prems(2) show ?thesis by simp
    qed
  qed
qed

lemma info_key_field:
  assumes "properties pm = pk # ps" and "stored pk" and "is_pk pk" and "filter_by pk"
    and "name pk \<notin> name ` set ps"
    and "info ev pm (Some (raw # rest)) = Inr r"
  shows "r (name pk) = Some (anonymize ev (token pm) raw)"
proof -
  from assms(6) obtain r0 r1 where
    r0: "fill_stored ev (token pm) (Some (raw # rest)) (properties pm) 0 Map.empty = Inr r0"
    and r1: "generate (properties pm) r0 = Inr r1"
    and r: "r = remove_non_exposed pm r1"
    by (auto simp: info_def bind_r_def split: sum.splits)
  have g: "is_generated pk = Inr False"
    using assms(2) by (simp add: stored_def)
  from r0 have "fill_stored ev (token pm) (Some (raw # rest)) ps (Suc 0)
                  (Map.empty(name pk \<mapsto> anonymize ev (token pm) raw)) = Inr r0"
    by (simp add: assms(1,3) g bind_r_def row_get_def index_r_def)
  from fill_stored_other [OF this assms(5)]
  have k0: "r0 (name pk) = Some (anonymize ev (token pm) raw)"
    by simp
  from r1 have "generate ps r0 = Inr r1"
    by (simp add: assms(1) g bind_r_def)
  from generate_other [OF this assms(5)] k0
  have k1: "r1 (name pk) = Some (anonymize ev (token pm) raw)"
    by simp
  have "get_property_by_name pm (name pk) = Some pk"
    by (simp add: get_property_by_name_def assms(1))
  then show ?thesis
    using k1 assms(4) by (simp add: r remove_non_exposed_def)
qed

lemma property_body_flags:
  assumes "property_body ev mk_fk src fk nm t ag lb fb pk = Inr p"
  shows "filter_by p = fb \<and> is_pk p = pk"
  using assms
  by (auto simp: property_body_def bind_r_def Let_def
           split: sum.splits option.splits if_splits)

lemma property_manager_init_shape:
  assumes "property_manager_init ev config tok = Inr pm"
  shows "\<exists>ps. properties pm = user_pk pm # ps \<and> is_pk (user_pk pm) \<and> filter_by (user_pk pm)"
proof -
  from assms obtain pk ps where pk: "property_init ev (cfg_user_pk config) None None None None None True True = Inr pk"
    and pm: "properties pm = pk # ps" "user_pk pm = pk"
    by (auto simp: property_manager_init_def bind_r_def split: sum.splits)
  from pk have "filter_by pk \<and> is_pk pk"
    using property_body_flags by (fastforce simp: property_init_def)
  then show ?thesis using pm by simp
qed

text \<open>
  Claim C4, as the code has it. For a manager that construction has returned, whose
  primary key is a stored property and whose other properties have other names, the key
  field of every record that \<^verbatim>\<open>info\<close> returns is
  \<^verbatim>\<open>sha1(str(token) + '###' + str(raw)).hexdigest()\<close>, where \<^verbatim>\<open>raw\<close> is the first
  column of the row: a function of the token and the raw key alone, so that equal raw keys
  under one token give equal key fields. Tokens whose string forms differ give different
  hashed texts; whether the digests differ is a property of SHA-1, which this development
  does not define.
\<close>

theorem key_field_is_hash_of_token_and_raw_key:
  assumes "property_manager_init ev config tok = Inr pm"
    and "stored (user_pk pm)"
    and "name (user_pk pm) \<notin> name ` set (tl (properties pm))"
    and "info ev pm (Some (raw # rest)) = Inr r"
  shows "r (name (user_pk pm)) =
           Some (VStr (sha1_hexdigest ev (py_str ev (token pm) @ ''###'' @ py_str ev raw)))
       \<and> (\<forall>tok'. py_str ev tok' \<noteq> py_str ev (token pm) \<longrightarrow>
             py_str ev tok' @ ''###'' @ py_str ev raw
               \<noteq> py_str ev (token pm) @ ''###'' @ py_str ev raw)"
proof -
  from property_manager_init_shape [OF assms(1)] obtain ps where
    ps: "properties pm = user_pk pm # ps" "is_pk (user_pk pm)" "filter_by (user_pk pm)"
    by blast
  have "name (user_pk pm) \<notin> name ` set ps"
    using assms(3) ps(1) by simp
  from info_key_field [OF ps(1) assms(2) ps(2,3) this assms(4)]
  show ?thesis by (simp add: anonymize_def)
qed

theorem key_field_is_hash_of_token_and_raw_key_witness:
  "\<exists>r. info example_env pm_ordered (Some [VInt 7]) = Inr r
     \<and> r ''id'' = Some (VStr (sha1_hexdigest example_env (''run1###7'')))"
proof -
  have c: "property_manager_init example_env cfg_ordered (VStr ''run1'') = Inr pm_ordered"
    by (simp add: property_manager_init_def property_init_def property_body_def bind_r_def
      index_r_def truthy_def info_of_def pk_id_def example_env_def property_of_info_def key_r_def
      val_truthy_def Let_def csv_unquoted_def cfg_ordered_def pm_ordered_def prop_a_def prop_b_def)
  have 2: "stored (user_pk pm_ordered)"
    by (simp add: stored_def is_generated_def pm_ordered_def pk_id_def)
  have 3: "name (user_pk pm_ordered) \<notin> name ` set (tl (properties pm_ordered))"
    by (simp add: pm_ordered_def pk_id_def prop_a_def prop_b_def)
  obtain r where 4: "info example_env pm_ordered (Some (VInt 7 # [])) = Inr r"
    by (simp add: info_def bind_r_def is_generated_def row_get_def index_r_def identity_def
      pm_ordered_def pk_id_def prop_a_def prop_b_def)
  from key_field_is_hash_of_token_and_raw_key [OF c 2 3 4]
  have "r ''id'' = Some (VStr (sha1_hexdigest example_env (''run1###7'')))"
    by (simp add: pm_ordered_def pk_id_def py_str_def str_nat.simps)
  with 4 show ?thesis by blast
qed

text \<open>
  Claim C4 as stated fails twice, whatever the hash function is. The tokens \<^verbatim>\<open>1\<close> and
  \<^verbatim>\<open>'1'\<close> differ and have the same string form, hence the same anonymized value for
  the raw key 7. And a second stored property on the key column, \<^verbatim>\<open>user_id\<close>, puts
  the raw key 7 into the output record.
\<close>

theorem raw_key_and_token_counterexample:
  "\<forall>ev. VInt 1 \<noteq> VStr ''1''
     \<and> anonymize ev (VInt 1) (VInt 7) = anonymize ev (VStr ''1'') (VInt 7)
     \<and> (\<exists>r. info ev pm_alias (Some [VInt 7, VInt 7]) = Inr r \<and> r ''user_id'' = Some (VInt 7))"
  by (simp add: anonymize_def py_str_def str_nat.simps info_def bind_r_def is_generated_def
      row_get_def index_r_def remove_non_exposed_def get_property_by_name_def
      pm_alias_def pk_id_def)

subsection \<open>The dependency resolver\<close>

lemma dependencies_loop_append:
  "dependencies_loop f pm (xs @ ys) =
     bind_f (dependencies_loop f pm xs) (\<lambda>a.
       bind_f (dependencies_loop f pm ys) (\<lambda>b. Some (Inr (a @ b))))"
proof (induction xs)
  case Nil
  show ?case
    by (cases "dependencies_loop f pm ys")
       (auto simp: bind_f_def split: sum.splits)
next
  case (Cons x xs)
  show ?case
  proof (cases x)
    case Nil
    then show ?thesis by (simp add: bind_f_def)
  next
    case (Cons c nm)
    show ?thesis
      using Cons.IH
      by (auto simp: Cons bind_f_def split: option.splits sum.splits)
  qed
qed

text \<open>
  Claim C3, as the code has it. \<^verbatim>\<open>get_dependencies\<close> keeps no set of visited
  properties and no depth counter. On a cycle of \<^verbatim>\<open>@name\<close> references (a set
  \<^term>\<open>S\<close> of generated properties, each with an argument that names a member of
  \<^term>\<open>S\<close>, the arguments before it raising nothing) the recursion is unbounded:
  whatever the depth allowed, the call has not returned, neither with a list nor with
  an error.
\<close>

theorem get_dependencies_cycle_never_returns:
  assumes "\<forall>p\<in>S. generated p \<and>
             (\<exists>pre nm rest q. fn_args p = pre @ (CHR ''@'' # nm) # rest
                \<and> (\<forall>d e. dependencies_loop (get_dependencies d pm) pm pre \<noteq> Some (Inl e))
                \<and> get_property_by_name pm nm = Some q \<and> q \<in> S)"
    and "p \<in> S"
  shows "get_dependencies depth pm p = None"
  using assms(2)
proof (induction depth arbitrary: p)
  case 0
  show ?case by simp
next
  case (Suc depth)
  from assms(1) Suc.prems obtain pre nm rest q where
    g: "generated p" and args: "fn_args p = pre @ (CHR ''@'' # nm) # rest"
    and pre: "\<forall>d e. dependencies_loop (get_dependencies d pm) pm pre \<noteq> Some (Inl e)"
    and q: "get_property_by_name pm nm = Some q" "q \<in> S"
    by blast
  have qn: "get_dependencies depth pm q = None"
    using Suc.IH q(2) by blast
  have "dependencies_loop (get_dependencies depth pm) pm ((CHR ''@'' # nm) # rest) = None"
    by (simp add: q(1) qn bind_f_def)
  then have "dependencies_loop (get_dependencies depth pm) pm (fn_args p) = None"
    using pre
    by (auto simp: args dependencies_loop_append bind_f_def split: option.splits sum.splits)
  then show ?case
    using g by (simp add: generated_def)
qed

theorem get_dependencies_cycle_never_returns_witness:
  "\<forall>depth. get_dependencies depth pm_cyclic prop_y = None"
proof
  fix depth
  have x: "generated prop_x \<and>
             (\<exists>pre nm rest q. fn_args prop_x = pre @ (CHR ''@'' # nm) # rest
                \<and> (\<forall>d e. dependencies_loop (get_dependencies d pm_cyclic) pm_cyclic pre \<noteq> Some (Inl e))
                \<and> get_property_by_name pm_cyclic nm = Some q \<and> q \<in> {prop_x, prop_y})"
    apply (rule conjI)
     apply (simp add: generated_def is_generated_def prop_x_def)
    apply (rule exI [of _ "[]"], rule exI [of _ "''y''"], rule exI [of _ "[]"], rule exI [of _ prop_y])
    apply (simp add: get_property_by_name_def pm_cyclic_def pk_id_def)
    apply (simp add: prop_x_def prop_y_def)
    done
  have y: "generated prop_y \<and>
             (\<exists>pre nm rest q. fn_args prop_y = pre @ (CHR ''@'' # nm) # rest
                \<and> (\<forall>d e. dependencies_loop (get_dependencies d pm_cyclic) pm_cyclic pre \<noteq> Some (Inl e))
                \<and> get_property_by_name pm_cyclic nm = Some q \<and> q \<in> {prop_x, prop_y})"
    apply (rule conjI)
     apply (simp add: generated_def is_generated_def prop_y_def)
    apply (rule exI [of _ "[]"], rule exI [of _ "''x''"], rule exI [of _ "[]"], rule exI [of _ prop_x])
    apply (simp add: get_property_by_name_def pm_cyclic_def pk_id_def)
    apply (simp add: prop_x_def prop_y_def)
    done
  have S: "\<forall>p\<in>{prop_x, prop_y}. generated p \<and>
             (\<exists>pre nm rest q. fn_args p = pre @ (CHR ''@'' # nm) # rest
                \<and> (\<forall>d e. dependencies_loop (get_dependencies d pm_cyclic) pm_cyclic pre \<noteq> Some (Inl e))
                \<and> get_property_by_name pm_cyclic nm = Some q \<and> q \<in> {prop_x, prop_y})"
    using x y by blast
  show "get_dependencies depth pm_cyclic prop_y = None"
    using get_dependencies_cycle_never_returns [OF S, of prop_y depth] by simp
qed

lemma cyclic_both:
  "get_dependencies depth pm_cyclic prop_x = None \<and> get_dependencies depth pm_cyclic prop_y = None"
proof (induction depth)
  case 0
  show ?case by simp
next
  case (Suc depth)
  then show ?case
    by (simp add: is_generated_def get_property_by_name_def bind_f_def
        pm_cyclic_def pk_id_def prop_x_def prop_y_def)
qed

text \<open>
  Claim C3 as stated fails: \<^verbatim>\<open>x\<close> reads \<^verbatim>\<open>y\<close> and \<^verbatim>\<open>y\<close> reads \<^verbatim>\<open>x\<close>.
  Construction returns the manager, and \<^verbatim>\<open>get_dependencies\<close> on \<^verbatim>\<open>x\<close> returns
  nothing within any depth: there is no cyclic-dependency error.
\<close>

theorem cyclic_dependency_unbounded_counterexample:
  "property_manager_init example_env cfg_cyclic (VStr ''run1'') = Inr pm_cyclic
     \<and> (\<forall>depth. get_dependencies depth pm_cyclic prop_x = None)"
  using cyclic_both
  by (simp add: property_manager_init_def property_init_def property_body_def bind_r_def
      index_r_def truthy_def info_of_def pk_id_def example_env_def property_of_info_def key_r_def
      val_truthy_def Let_def csv_unquoted_def cfg_cyclic_def pm_cyclic_def prop_x_def prop_y_def)

subsection \<open>The differential merge\<close>
















lemma dependencies_loop_no_refs:
  "\<forall>a\<in>set args. a \<noteq> [] \<and> hd a \<noteq> CHR ''@'' \<Longrightarrow> dependencies_loop f pm args = Some (Inr [])"
proof (induction args)
  case Nil
  show ?case by simp
next
  case (Cons a args)
  then show ?case by (cases a) auto
qed

text \<open>A generated property whose arguments are all non-empty and none a \<^verbatim>\<open>@name\<close>
  reference has no dependency, at every depth, and is not dirty.\<close>

lemma property_without_refs_never_dirty:
  assumes "generated p" and "\<forall>a\<in>set (fn_args p). a \<noteq> [] \<and> hd a \<noteq> CHR ''@''"
  shows "get_dependencies (Suc d) pm p = Some (Inr []) \<and> \<not> is_dirty old_user u []"
  using assms dependencies_loop_no_refs [OF assms(2)] by (simp add: generated_def)

text \<open>
  Claim C9 at a property that the old record does not hold. The property \<^verbatim>\<open>salt\<close>
  reads no property and is not exposed, so \<^verbatim>\<open>info\<close> removes it from every record.
  Its dependency list is empty and it is never dirty, as the claim says; for an old and a
  new record of the same key, \<^verbatim>\<open>combine\<close> then reads \<^verbatim>\<open>old_user['salt']\<close>, which
  no guard protects (the loop that sets \<^verbatim>\<open>dirty\<close> does test the names of the
  dependencies), and raises KeyError where the claim carries a value forward.
\<close>

theorem hidden_property_KeyError:
  "\<forall>ev. (\<exists>r. info ev pm_hidden (Some [VInt 7]) = Inr r \<and> r ''salt'' = None)
      \<and> (\<forall>d. get_dependencies (Suc d) pm_hidden prop_salt = Some (Inr []))
      \<and> (\<forall>d. combine (Suc d) pm_hidden [[''id'' \<mapsto> VStr ''k1'']] [[''id'' \<mapsto> VStr ''k1'']]
              = Some (Inl KeyError))"
  by (simp add: info_def bind_r_def row_get_def index_r_def remove_non_exposed_def first_name_def
      combine_def get_primary_key_def get_property_by_name_def bind_f_def
      is_generated_def pm_hidden_def pk_id_def prop_salt_def)

subsection \<open>The example managers are what construction returns\<close>

lemma example_managers_constructed:
  "property_manager_init example_env cfg_orders (VStr ''run1'') = Inr pm_orders"
  "property_manager_init example_env cfg_ordered (VStr ''run1'') = Inr pm_ordered"
  "property_manager_init example_env cfg_unordered (VStr ''run1'') = Inr pm_unordered"
  "property_manager_init example_env cfg_alias (VStr ''run1'') = Inr pm_alias"
  "property_manager_init example_env cfg_chain (VStr ''run1'') = Inr pm_chain"
  "property_manager_init example_env cfg_hidden (VStr ''run1'') = Inr pm_hidden"
  by (simp_all add: property_manager_init_def property_init_def property_body_def bind_r_def
      index_r_def truthy_def info_of_def pk_id_def example_env_def property_of_info_def key_r_def
      val_truthy_def Let_def csv_unquoted_def
      cfg_orders_def pm_orders_def fk_orders_def
      cfg_ordered_def pm_ordered_def cfg_unordered_def pm_unordered_def prop_a_def prop_b_def
      cfg_alias_def pm_alias_def
      cfg_chain_def pm_chain_def prop_first_def prop_greeting_def
      cfg_hidden_def pm_hidden_def prop_salt_def)

end
